theory Spec2Isabelle
  imports Complex_Main
begin

section \<open>JavaScript strings and numbers\<close>

text \<open>
  Strings are lists of code units (\<^typ>\<open>string\<close>); the model covers code units below 256,
  with the case mappings of the ASCII letters. A JavaScript \<open>number\<close> is modelled by a
  \<^typ>\<open>real\<close>: comparisons, \<open>Math.min\<close>, \<open>Math.max\<close> and \<open>Math.round\<close> are exact on
  finite doubles, so the model covers every finite number; \<open>NaN\<close> and the infinities are
  outside it.
\<close>

definition toLowerChar :: "char \<Rightarrow> char" where
  "toLowerChar c =
     (if (65::nat) \<le> of_char c \<and> of_char c \<le> (90::nat) then char_of (of_char c + (32::nat)) else c)"

definition toUpperChar :: "char \<Rightarrow> char" where
  "toUpperChar c =
     (if (97::nat) \<le> of_char c \<and> of_char c \<le> (122::nat) then char_of (of_char c - (32::nat)) else c)"

definition toLowerCase :: "string \<Rightarrow> string" where
  "toLowerCase s = map toLowerChar s"

definition toUpperCase :: "string \<Rightarrow> string" where
  "toUpperCase s = map toUpperChar s"

definition startsWith :: "string \<Rightarrow> string \<Rightarrow> bool" where
  "startsWith s sub = (take (length sub) s = sub)"

text \<open>\<open>s.includes(sub)\<close>: \<open>sub\<close> occurs in \<open>s\<close> as a contiguous run.\<close>

fun str_includes :: "string \<Rightarrow> string \<Rightarrow> bool" where
  "str_includes [] sub = (sub = [])"
| "str_includes (c # cs) sub = (startsWith (c # cs) sub \<or> str_includes cs sub)"

text \<open>\<open>s.split(sep)\<close> for a one-character separator; the result is never empty.\<close>

fun str_split :: "char \<Rightarrow> string \<Rightarrow> string list" where
  "str_split sep [] = [[]]"
| "str_split sep (c # cs) =
     (if c = sep then [] # str_split sep cs
      else (case str_split sep cs of [] \<Rightarrow> [[c]] | w # ws \<Rightarrow> (c # w) # ws))"

fun str_join :: "string \<Rightarrow> string list \<Rightarrow> string" where
  "str_join sep [] = []"
| "str_join sep [w] = w"
| "str_join sep (w # ws) = w @ sep @ str_join sep ws"

text \<open>Truthiness of an optional string and of an optional number.\<close>

fun truthy_str :: "string option \<Rightarrow> bool" where
  "truthy_str None = False"
| "truthy_str (Some s) = (s \<noteq> [])"

fun truthy_num :: "real option \<Rightarrow> bool" where
  "truthy_num None = False"
| "truthy_num (Some n) = (n \<noteq> 0)"

text \<open>\<open>a || d\<close> on an optional string and on an optional number.\<close>

definition or_str :: "string option \<Rightarrow> string \<Rightarrow> string" where
  "or_str a d = (case a of None \<Rightarrow> d | Some s \<Rightarrow> if s = [] then d else s)"

definition or_num :: "real option \<Rightarrow> real \<Rightarrow> real" where
  "or_num a d = (case a of None \<Rightarrow> d | Some n \<Rightarrow> if n = 0 then d else n)"

definition Math_round :: "real \<Rightarrow> int" where
  "Math_round x = \<lfloor>x + 1 / 2\<rfloor>"

definition isDigit :: "char \<Rightarrow> bool" where
  "isDigit c = ((48::nat) \<le> of_char c \<and> of_char c \<le> (57::nat))"

definition digitChar :: "nat \<Rightarrow> char" where
  "digitChar d = char_of (48 + d)"

text \<open>The decimal rendering of an integer in a template literal (below \<open>10^21\<close> in size).\<close>

function digitsOfNat :: "nat \<Rightarrow> string" where
  "digitsOfNat n = (if n < 10 then [digitChar n] else digitsOfNat (n div 10) @ [digitChar (n mod 10)])"
  by pat_completeness auto
termination
  by (relation "measure (\<lambda>n. n)") auto

definition intToString :: "int \<Rightarrow> string" where
  "intToString i = (if i < 0 then CHR ''-'' # digitsOfNat (nat (- i)) else digitsOfNat (nat i))"

text \<open>The value of a run of decimal digits, as \<open>parseInt\<close> reads it.\<close>

definition digitValue :: "char \<Rightarrow> nat" where
  "digitValue c = of_char c - 48"

definition parseDigits :: "string \<Rightarrow> nat" where
  "parseDigits ds = foldl (\<lambda>acc c. 10 * acc + digitValue c) 0 ds"

text \<open>\<open>s.match(/\d+/)\<close>: the first maximal run of digits, if there is one.\<close>

definition matchDigits :: "string \<Rightarrow> string option" where
  "matchDigits s =
     (let run = takeWhile isDigit (dropWhile (\<lambda>c. \<not> isDigit c) s)
      in if run = [] then None else Some run)"

section \<open>Data model (shared schema)\<close>

record WeatherInfo =
  condition :: string
  temperature :: real
  description :: string
  icon :: string
  humidity :: "real option"
  windSpeed :: "real option"

datatype seating = indoor | outdoor | no_preference

text \<open>
  The step of a context is a string at run time; the request schema admits the twelve
  values of \<open>validSteps\<close> below.
\<close>

record BookingContext =
  customerName :: "string option"
  numberOfGuests :: "real option"
  bookingDate :: "string option"
  bookingTime :: "string option"
  cuisinePreference :: "string option"
  location :: "string option"
  specialRequests :: "string option"
  seatingPreference :: "seating option"
  weatherInfo :: "WeatherInfo option"
  step :: string

datatype status = pending | confirmed | cancelled

record InsertBooking =
  b_customerName :: string
  b_numberOfGuests :: real
  b_bookingDate :: string
  b_bookingTime :: string
  b_cuisinePreference :: string
  b_location :: string
  b_specialRequests :: "string option"
  b_weatherInfo :: "WeatherInfo option"
  b_seatingPreference :: seating

record Booking = InsertBooking +
  bookingId :: string
  b_status :: status
  createdAt :: string

record ChatResponse =
  response :: string
  r_context :: BookingContext
  bookingComplete :: "bool option"
  booking :: "Booking option"

section \<open>Language-model adapter: context merge and fallback parser\<close>

text \<open>
  A value of the parsed model reply. The reply is parsed JSON, so a field declared as a
  number may hold anything; \<open>updateContext\<close> tests \<open>typeof\<close> for the guest count.
\<close>

datatype js_value = JUndefined | JNull | JBoolean bool | JNumber real | JString string | JObject

fun truthy :: "js_value \<Rightarrow> bool" where
  "truthy JUndefined = False"
| "truthy JNull = False"
| "truthy (JBoolean b) = b"
| "truthy (JNumber n) = (n \<noteq> 0)"
| "truthy (JString s) = (s \<noteq> [])"
| "truthy JObject = True"

text \<open>
  \<open>extractedData\<close>, a \<open>Partial<BookingContext>\<close>: every field may be absent. For the string
  fields \<open>None\<close> stands for absent, \<open>undefined\<close> and \<open>null\<close>.
\<close>

record ExtractedData =
  x_customerName :: "string option"
  x_numberOfGuests :: js_value
  x_bookingDate :: "string option"
  x_bookingTime :: "string option"
  x_cuisinePreference :: "string option"
  x_location :: "string option"
  x_specialRequests :: "string option"
  x_seatingPreference :: "seating option"
  x_weatherInfo :: "WeatherInfo option"
  x_step :: "string option"

record Parsed =
  p_response :: "string option"
  extractedData :: "ExtractedData option"
  nextStep :: "string option"
  isConfirmed :: "bool option"

definition validSteps :: "string list" where
  "validSteps =
     [''greeting'', ''collect_name'', ''collect_guests'', ''collect_date'', ''collect_time'',
      ''collect_cuisine'', ''collect_location'', ''fetch_weather'', ''suggest_seating'',
      ''collect_special_requests'', ''confirm_booking'', ''booking_complete'']"

definition isValidStep :: "string \<Rightarrow> bool" where
  "isValidStep s = (s \<in> set validSteps)"

text \<open>One guarded assignment of \<open>updateContext\<close>: \<open>if (v) updated.f = v\<close>.\<close>

definition assignIf :: "string option \<Rightarrow> string option \<Rightarrow> string option" where
  "assignIf v old = (if truthy_str v then v else old)"

definition assignGuests :: "js_value \<Rightarrow> real option \<Rightarrow> real option" where
  "assignGuests v old =
     (case v of
        JNumber n \<Rightarrow> if truthy (JNumber n) then Some (min 20 (max 1 n)) else old
      | _ \<Rightarrow> old)"

definition mergeExtracted :: "ExtractedData \<Rightarrow> BookingContext \<Rightarrow> BookingContext" where
  "mergeExtracted d u =
     u\<lparr>customerName := assignIf (x_customerName d) (customerName u),
       numberOfGuests := assignGuests (x_numberOfGuests d) (numberOfGuests u),
       bookingDate := assignIf (x_bookingDate d) (bookingDate u),
       bookingTime := assignIf (x_bookingTime d) (bookingTime u),
       cuisinePreference := assignIf (x_cuisinePreference d) (cuisinePreference u),
       location := assignIf (x_location d) (location u),
       specialRequests := assignIf (x_specialRequests d) (specialRequests u)\<rparr>"

definition updateContext :: "BookingContext \<Rightarrow> Parsed \<Rightarrow> BookingContext" where
  "updateContext ctx parsed =
     (let updated = (case extractedData parsed of None \<Rightarrow> ctx | Some d \<Rightarrow> mergeExtracted d ctx)
      in case nextStep parsed of
           None \<Rightarrow> updated
         | Some s \<Rightarrow> if s \<noteq> [] \<and> isValidStep s then updated\<lparr>step := s\<rparr> else updated)"

definition createFallbackResponse :: "string \<Rightarrow> BookingContext \<Rightarrow> ChatResponse" where
  "createFallbackResponse userMessage ctx =
     (let lowerMessage = toLowerCase userMessage in
      if step ctx = ''greeting'' \<or> str_includes lowerMessage ''hello'' \<or> str_includes lowerMessage ''hi''
      then \<lparr>response = ''Hello! Welcome to our restaurant booking service. I'd be happy to help ''
                @ ''you reserve a table. May I have your name, please?'',
             r_context = ctx\<lparr>step := ''collect_name''\<rparr>, bookingComplete = None, booking = None\<rparr>
      else if step ctx = ''collect_name'' \<and> \<not> truthy_str (customerName ctx)
      then (let words = str_split CHR '' '' userMessage;
                name = (if length words \<le> 3 then userMessage else str_join '' '' (take 2 words))
            in \<lparr>response = ''Nice to meet you, '' @ name
                    @ ''! How many guests will be joining you for dinner?'',
                 r_context = ctx\<lparr>customerName := Some name, step := ''collect_guests''\<rparr>,
                 bookingComplete = None, booking = None\<rparr>)
      else (case (if step ctx = ''collect_guests'' then matchDigits userMessage else None) of
              Some numMatch \<Rightarrow>
                (let guests = min 20 (max 1 (parseDigits numMatch))
                 in \<lparr>response = ''Wonderful! A table for '' @ digitsOfNat guests
                         @ ''. What date would you like to book? You can say something like ''
                         @ [CHR 0x22] @ ''tomorrow'' @ [CHR 0x22] @ '' or give me a specific date.'',
                      r_context = ctx\<lparr>numberOfGuests := Some (real guests), step := ''collect_date''\<rparr>,
                      bookingComplete = None, booking = None\<rparr>)
            | None \<Rightarrow>
                \<lparr>response = ''I'm sorry, I didn't quite catch that. Could you please repeat?'',
                 r_context = ctx, bookingComplete = None, booking = None\<rparr>))"

section \<open>Booking store (server/storage.ts)\<close>

text \<open>
  \<open>MemStorage\<close> holds a \<open>Map<string, Booking>\<close>; each operation takes the map and returns
  its result with the map after the call. \<open>randomUUID()\<close> and the clock are inputs.
\<close>

type_synonym store = "string \<rightharpoonup> Booking"

definition getBooking :: "store \<Rightarrow> string \<Rightarrow> Booking option" where
  "getBooking bookings ident = bookings ident"

definition createBooking :: "string \<Rightarrow> string \<Rightarrow> InsertBooking \<Rightarrow> store \<Rightarrow> Booking \<times> store" where
  "createBooking randomUUID nowISO insertBooking bookings =
     (let newId = ''BK-'' @ toUpperCase (take 8 randomUUID);
          created = InsertBooking.extend insertBooking (Booking.fields newId confirmed nowISO)
      in (created, bookings(newId \<mapsto> created)))"

definition updateBookingStatus :: "string \<Rightarrow> status \<Rightarrow> store \<Rightarrow> Booking option \<times> store" where
  "updateBookingStatus ident st bookings =
     (case bookings ident of
        None \<Rightarrow> (None, bookings)
      | Some b \<Rightarrow> (let updated = b\<lparr>b_status := st\<rparr> in (Some updated, bookings(ident \<mapsto> updated))))"

definition deleteBooking :: "string \<Rightarrow> store \<Rightarrow> bool \<times> store" where
  "deleteBooking ident bookings =
     (case bookings ident of
        None \<Rightarrow> (False, bookings)
      | Some b \<Rightarrow> (True, bookings(ident \<mapsto> b\<lparr>b_status := cancelled\<rparr>)))"

text \<open>
  The shape of \<open>randomUUID()\<close>: 36 characters, hyphens at positions 8, 13, 18 and 23,
  lower-case hexadecimal digits elsewhere.
\<close>

definition isLowerHex :: "char \<Rightarrow> bool" where
  "isLowerHex c = (isDigit c \<or> ((97::nat) \<le> of_char c \<and> of_char c \<le> (102::nat)))"

definition isUUID :: "string \<Rightarrow> bool" where
  "isUUID u =
     (length u = 36 \<and>
      list_all isLowerHex (take 8 u) \<and> take 1 (drop 8 u) = ''-'' \<and>
      list_all isLowerHex (take 4 (drop 9 u)) \<and> take 1 (drop 13 u) = ''-'' \<and>
      list_all isLowerHex (take 4 (drop 14 u)) \<and> take 1 (drop 18 u) = ''-'' \<and>
      list_all isLowerHex (take 4 (drop 19 u)) \<and> take 1 (drop 23 u) = ''-'' \<and>
      list_all isLowerHex (drop 24 u))"

text \<open>The pattern \<open>BK-[A-Z0-9]{8}\<close>, matched against the whole identifier.\<close>

definition isUpperAlnum :: "char \<Rightarrow> bool" where
  "isUpperAlnum c = (isDigit c \<or> ((65::nat) \<le> of_char c \<and> of_char c \<le> (90::nat)))"

definition matchesBookingId :: "string \<Rightarrow> bool" where
  "matchesBookingId s =
     (take 3 s = ''BK-'' \<and> length (drop 3 s) = 8 \<and> list_all isUpperAlnum (drop 3 s))"

section \<open>Seating rule (generateSeatingResponse)\<close>

record SeatingResponse =
  s_response :: string
  preference :: seating

text \<open>The degree sign of the rationale texts is the code unit \<open>0xB0\<close>.\<close>

definition degreesC :: string where
  "degreesC = [CHR 0xB0, CHR ''C'']"

definition generateSeatingResponse :: "string \<Rightarrow> real \<Rightarrow> SeatingResponse" where
  "generateSeatingResponse weatherCondition temp =
     (let cond = toLowerCase weatherCondition in
      if str_includes cond ''rain'' \<or> str_includes cond ''storm'' \<or> str_includes cond ''snow''
      then \<lparr>s_response = ''It looks like there might be some '' @ cond
               @ '' on your booking date. I'd recommend our cozy indoor seating area where ''
               @ ''you can enjoy your meal comfortably. Does that sound good?'',
             preference = indoor\<rparr>
      else if temp > 30
      then \<lparr>s_response = ''It's going to be quite warm at '' @ intToString (Math_round temp) @ degreesC
               @ '' on your booking date. Our air-conditioned indoor seating would be more ''
               @ ''comfortable. Would you prefer that?'',
             preference = indoor\<rparr>
      else if temp < 10
      then \<lparr>s_response = ''It's going to be a bit chilly at '' @ intToString (Math_round temp) @ degreesC
               @ '' on your booking date. Our warm indoor seating would be perfect. Sound good?'',
             preference = indoor\<rparr>
      else if str_includes cond ''clear'' \<or> str_includes cond ''sunny''
      then \<lparr>s_response = ''Great news! The weather looks beautiful on your booking date - ''
               @ intToString (Math_round temp) @ degreesC @ '' and '' @ cond
               @ ''! Would you like outdoor seating to enjoy the lovely weather?'',
             preference = outdoor\<rparr>
      else \<lparr>s_response = ''The weather on your booking date looks fine - around ''
               @ intToString (Math_round temp) @ degreesC
               @ ''. Would you prefer indoor or outdoor seating?'',
             preference = no_preference\<rparr>)"

text \<open>The seating rule as the specification words it: a precedence list, first match wins.\<close>

definition conditionMatches :: "string list \<Rightarrow> string \<Rightarrow> bool" where
  "conditionMatches keywords weatherCondition =
     list_ex (str_includes (toLowerCase weatherCondition)) keywords"

definition seatingRuleSpec :: "string \<Rightarrow> real \<Rightarrow> seating" where
  "seatingRuleSpec weatherCondition temp =
     (if conditionMatches [''rain'', ''storm'', ''snow''] weatherCondition then indoor
      else if temp > 30 then indoor
      else if temp < 10 then indoor
      else if conditionMatches [''clear'', ''sunny''] weatherCondition then outdoor
      else no_preference)"

section \<open>Weather resolver\<close>

text \<open>
  The upstream service, the configured credential, the clock and the \<open>Date\<close> parser are
  inputs. A fetch either rejects (network failure, or a body that is not JSON), answers
  with a status that is not \<open>ok\<close>, or answers with a body of the declared shape.
\<close>

datatype 'a fetched = FetchRejected | HttpError nat | HttpOk 'a

datatype error = WeatherAPIError nat | FetchError | TypeError

record WeatherEntry =
  w_main :: string
  w_description :: string
  w_icon :: string

record ForecastItem =
  dt_txt :: string
  f_weather :: "WeatherEntry list"
  f_temp :: real
  f_humidity :: real
  f_windSpeed :: real

record OpenWeatherResponse =
  o_weather :: "WeatherEntry list"
  o_temp :: real
  o_humidity :: real
  o_windSpeed :: real

text \<open>
  \<open>dateGetTime d\<close> is \<open>new Date(d).getTime()\<close> in milliseconds, \<open>None\<close> for an invalid
  date (\<open>NaN\<close>); \<open>todayMidnight\<close> is \<open>new Date()\<close> after \<open>setHours(0, 0, 0, 0)\<close>.
  The two upstream endpoints answer per location.
\<close>

record WeatherEnv =
  OPENWEATHER_API_KEY :: string
  dateGetTime :: "string \<Rightarrow> int option"
  todayMidnight :: int
  forecastApi :: "string \<Rightarrow> ForecastItem list fetched"
  weatherApi :: "string \<Rightarrow> OpenWeatherResponse fetched"

definition isWhiteSpace :: "char \<Rightarrow> bool" where
  "isWhiteSpace c = ((of_char c :: nat) \<in> {9, 10, 11, 12, 13, 32, 160})"

definition digitOfRadix :: "nat \<Rightarrow> char \<Rightarrow> nat option" where
  "digitOfRadix radix c =
     (let n = (of_char c :: nat);
          v = (if 48 \<le> n \<and> n \<le> 57 then Some (n - 48)
               else if 97 \<le> n \<and> n \<le> 122 then Some (n - 87)
               else if 65 \<le> n \<and> n \<le> 90 then Some (n - 55)
               else None)
      in case v of None \<Rightarrow> None | Some d \<Rightarrow> if d < radix then Some d else None)"

text \<open>
  \<open>parseInt(s)\<close> without a radix: leading white space, a sign, a \<open>0x\<close> prefix for base
  16, then the longest run of digits; \<open>None\<close> is \<open>NaN\<close>.
\<close>

definition parseInt :: "string \<Rightarrow> int option" where
  "parseInt s =
     (let s1 = dropWhile isWhiteSpace s;
          neg = (take 1 s1 = ''-'');
          s2 = (if take 1 s1 = ''-'' \<or> take 1 s1 = ''+'' then drop 1 s1 else s1);
          hex = (take 2 s2 = ''0x'' \<or> take 2 s2 = ''0X'');
          radix = (if hex then 16 else 10);
          s3 = (if hex then drop 2 s2 else s2);
          ds = takeWhile (\<lambda>c. digitOfRadix radix c \<noteq> None) s3;
          n = foldl (\<lambda>acc c. radix * acc + (case digitOfRadix radix c of None \<Rightarrow> 0 | Some d \<Rightarrow> d)) 0 ds
      in if ds = [] then None else Some (if neg then - int n else int n))"

definition capitalizeWords :: "string \<Rightarrow> string" where
  "capitalizeWords str =
     str_join '' '' (map (\<lambda>word. toUpperCase (take 1 word) @ drop 1 word) (str_split CHR '' '' str))"

record MockTemplate =
  m_condition :: string
  m_description :: string
  m_temp :: real

definition conditions :: "MockTemplate list" where
  "conditions =
     [\<lparr>m_condition = ''Clear'', m_description = ''Clear sky'', m_temp = 25\<rparr>,
      \<lparr>m_condition = ''Clouds'', m_description = ''Partly cloudy'', m_temp = 22\<rparr>,
      \<lparr>m_condition = ''Rain'', m_description = ''Light rain'', m_temp = 18\<rparr>,
      \<lparr>m_condition = ''Sunny'', m_description = ''Sunny and warm'', m_temp = 28\<rparr>]"

definition dateHashOf :: "string \<Rightarrow> nat" where
  "dateHashOf date = foldl (\<lambda>acc c. acc + of_char c) 0 date"

definition getMockWeather :: "string \<Rightarrow> WeatherInfo" where
  "getMockWeather date =
     (let dateHash = dateHashOf date;
          selected = conditions ! (dateHash mod length conditions)
      in \<lparr>condition = m_condition selected,
          temperature = m_temp selected + real (dateHash mod 5) - 2,
          description = m_description selected,
          icon = ''01d'',
          humidity = Some (50 + real (dateHash mod 30)),
          windSpeed = Some (2 + real (dateHash mod 8))\<rparr>)"

text \<open>
  The two \<open>find\<close> calls of \<open>getForecastWeather\<close>. The first reads the hour of every
  item it visits, which throws a \<open>TypeError\<close> on a \<open>dt_txt\<close> without a space.
\<close>

fun findMidday :: "string \<Rightarrow> ForecastItem list \<Rightarrow> error + ForecastItem option" where
  "findMidday targetDate [] = Inr None"
| "findMidday targetDate (item # rest) =
     (case str_split CHR '' '' (dt_txt item) of
        itemDate # timePart # _ \<Rightarrow>
          (let itemHour = parseInt (hd (str_split CHR '':'' timePart))
           in if itemDate = targetDate \<and> (case itemHour of None \<Rightarrow> False | Some h \<Rightarrow> 12 \<le> h \<and> h \<le> 15)
              then Inr (Some item)
              else findMidday targetDate rest)
      | _ \<Rightarrow> Inl TypeError)"

definition findSameDate :: "string \<Rightarrow> ForecastItem list \<Rightarrow> ForecastItem option" where
  "findSameDate targetDate items = List.find (\<lambda>item. hd (str_split CHR '' '' (dt_txt item)) = targetDate) items"

definition weatherOfForecast :: "ForecastItem \<Rightarrow> error + WeatherInfo option" where
  "weatherOfForecast forecast =
     (case f_weather forecast of
        [] \<Rightarrow> Inl TypeError
      | w # _ \<Rightarrow>
          Inr (Some \<lparr>condition = w_main w,
                     temperature = f_temp forecast,
                     description = capitalizeWords (w_description w),
                     icon = w_icon w,
                     humidity = Some (f_humidity forecast),
                     windSpeed = Some (f_windSpeed forecast)\<rparr>))"

definition getForecastWeather :: "WeatherEnv \<Rightarrow> string \<Rightarrow> string \<Rightarrow> error + WeatherInfo option" where
  "getForecastWeather env loc date =
     (case forecastApi env loc of
        FetchRejected \<Rightarrow> Inl FetchError
      | HttpError st \<Rightarrow> Inl (WeatherAPIError st)
      | HttpOk items \<Rightarrow>
          (let targetDate = hd (str_split CHR ''T'' date) in
           case findMidday targetDate items of
             Inl e \<Rightarrow> Inl e
           | Inr (Some targetForecast) \<Rightarrow> weatherOfForecast targetForecast
           | Inr None \<Rightarrow>
               (case findSameDate targetDate items of
                  Some forecast \<Rightarrow> weatherOfForecast forecast
                | None \<Rightarrow> (case items of [] \<Rightarrow> Inr None | forecast # _ \<Rightarrow> weatherOfForecast forecast))))"

definition getCurrentWeatherAsEstimate :: "WeatherEnv \<Rightarrow> string \<Rightarrow> error + WeatherInfo option" where
  "getCurrentWeatherAsEstimate env loc =
     (case weatherApi env loc of
        FetchRejected \<Rightarrow> Inl FetchError
      | HttpError st \<Rightarrow> Inl (WeatherAPIError st)
      | HttpOk d \<Rightarrow>
          (case o_weather d of
             [] \<Rightarrow> Inl TypeError
           | w # _ \<Rightarrow>
               Inr (Some \<lparr>condition = w_main w,
                          temperature = o_temp d,
                          description = capitalizeWords (w_description w) @ '' (estimate)'',
                          icon = w_icon w,
                          humidity = Some (o_humidity d),
                          windSpeed = Some (o_windSpeed d)\<rparr>)))"

text \<open>
  The body of the \<open>try\<close> block of \<open>getWeatherForDate\<close>. With an invalid date
  \<open>diffDays\<close> is \<open>NaN\<close> and both comparisons are false.
\<close>

definition weatherAttempt :: "WeatherEnv \<Rightarrow> string \<Rightarrow> string \<Rightarrow> error + WeatherInfo option" where
  "weatherAttempt env date loc =
     (case dateGetTime env date of
        None \<Rightarrow> getCurrentWeatherAsEstimate env loc
      | Some targetTime \<Rightarrow>
          (let diffDays = (targetTime - todayMidnight env) div (1000 * 60 * 60 * 24) in
           if diffDays < 0 then Inr (Some (getMockWeather date))
           else if diffDays \<le> 5 then getForecastWeather env loc date
           else getCurrentWeatherAsEstimate env loc))"

definition getWeatherForDate :: "WeatherEnv \<Rightarrow> string \<Rightarrow> string \<Rightarrow> WeatherInfo option" where
  "getWeatherForDate env date loc =
     (if OPENWEATHER_API_KEY env = [] then Some (getMockWeather date)
      else (case weatherAttempt env date loc of
              Inl e \<Rightarrow> Some (getMockWeather date)
            | Inr w \<Rightarrow> w))"

section \<open>Dialogue controller (POST /api/chat)\<close>

text \<open>
  The reply of the language model after \<open>JSON.parse\<close>: the call or the parse threw, the
  text held no \<open>{...}\<close> span, or an object was parsed.
\<close>

datatype model_reply = ReplyThrew | ReplyNoJson | Reply Parsed

text \<open>
  What the handler reads from its surroundings: the weather environment, the clock of
  the handler (\<open>new Date().toISOString()\<close>), the store's \<open>randomUUID()\<close> and clock, the
  locale formatting of a date, the rendering of a number in a template literal, and the
  language model.
\<close>

record ChatEnv =
  weatherEnv :: WeatherEnv
  nowISO :: string
  randomUUID :: string
  createdAtISO :: string
  toLocaleDateString :: "string \<Rightarrow> string"
  numberToString :: "real \<Rightarrow> string"
  modelReply :: "string \<Rightarrow> BookingContext \<Rightarrow> model_reply"

definition processConversation :: "ChatEnv \<Rightarrow> string \<Rightarrow> BookingContext \<Rightarrow> ChatResponse" where
  "processConversation env userMessage ctx =
     (case modelReply env userMessage ctx of
        Reply parsed \<Rightarrow>
          (let updatedContext = updateContext ctx parsed
           in \<lparr>response = or_str (p_response parsed)
                   ''I'm sorry, I didn't understand that. Could you please repeat?'',
                r_context = updatedContext,
                bookingComplete =
                  Some (isConfirmed parsed = Some True \<and> step updatedContext = ''booking_complete''),
                booking = None\<rparr>)
      | _ \<Rightarrow> createFallbackResponse userMessage ctx)"

definition seatingToString :: "seating \<Rightarrow> string" where
  "seatingToString p = (case p of indoor \<Rightarrow> ''indoor'' | outdoor \<Rightarrow> ''outdoor'' | no_preference \<Rightarrow> ''no_preference'')"

text \<open>\<open>toLocaleDateString\<close> does not throw, so the \<open>catch\<close> of \<open>formatDate\<close> is never taken.\<close>

definition formatDate :: "ChatEnv \<Rightarrow> string \<Rightarrow> string" where
  "formatDate env dateString = toLocaleDateString env dateString"

definition buildBookingSummary :: "ChatEnv \<Rightarrow> BookingContext \<Rightarrow> string" where
  "buildBookingSummary env ctx =
     str_join [CHR 0x0A]
       ((if truthy_str (customerName ctx) then [''Name: '' @ the (customerName ctx)] else [])
        @ (if truthy_num (numberOfGuests ctx)
           then [''Party size: '' @ numberToString env (the (numberOfGuests ctx)) @ '' guests''] else [])
        @ (if truthy_str (bookingDate ctx) then [''Date: '' @ formatDate env (the (bookingDate ctx))] else [])
        @ (if truthy_str (bookingTime ctx) then [''Time: '' @ the (bookingTime ctx)] else [])
        @ (if truthy_str (cuisinePreference ctx) then [''Cuisine: '' @ the (cuisinePreference ctx)] else [])
        @ (if truthy_str (location ctx) then [''Location: '' @ the (location ctx)] else [])
        @ (case seatingPreference ctx of
             None \<Rightarrow> []
           | Some p \<Rightarrow> if p \<noteq> no_preference then [''Seating: '' @ seatingToString p] else [])
        @ (if truthy_str (specialRequests ctx) then [''Special requests: '' @ the (specialRequests ctx)] else []))"

text \<open>The \<open>fetch_weather\<close> step; \<open>None\<close> when the handler falls through.\<close>

definition fetchWeatherTurn :: "ChatEnv \<Rightarrow> BookingContext \<Rightarrow> ChatResponse option" where
  "fetchWeatherTurn env ctx =
     (if step ctx = ''fetch_weather'' \<and> truthy_str (location ctx) \<and> truthy_str (bookingDate ctx)
      then (case getWeatherForDate (weatherEnv env) (the (bookingDate ctx)) (the (location ctx)) of
              None \<Rightarrow> None
            | Some weather \<Rightarrow>
                (let seatingResponse = generateSeatingResponse (condition weather) (temperature weather)
                 in Some \<lparr>response = s_response seatingResponse,
                          r_context = ctx\<lparr>weatherInfo := Some weather,
                                          seatingPreference := Some (preference seatingResponse),
                                          step := ''suggest_seating''\<rparr>,
                          bookingComplete = None, booking = None\<rparr>))
      else None)"

definition suggestSeatingTurn :: "string \<Rightarrow> BookingContext \<Rightarrow> ChatResponse" where
  "suggestSeatingTurn message ctx =
     (let lowerMessage = toLowerCase message;
          pref =
            (if str_includes lowerMessage ''outdoor'' \<or> str_includes lowerMessage ''outside''
                \<or> str_includes lowerMessage ''patio''
             then outdoor
             else if str_includes lowerMessage ''indoor'' \<or> str_includes lowerMessage ''inside''
             then indoor
             else if str_includes lowerMessage ''yes'' \<or> str_includes lowerMessage ''sure''
                \<or> str_includes lowerMessage ''sounds good''
             then (case seatingPreference ctx of None \<Rightarrow> indoor | Some p \<Rightarrow> p)
             else (case seatingPreference ctx of None \<Rightarrow> no_preference | Some p \<Rightarrow> p))
      in \<lparr>response = ''Great choice! '' @ (if pref = outdoor then ''Outdoor'' else ''Indoor'')
              @ '' seating it is. Do you have any special requests? For example, is this for a ''
              @ ''birthday, anniversary, or do you have any dietary requirements? If not, just say ''
              @ [CHR 0x22] @ ''no special requests'' @ [CHR 0x22] @ ''.'',
           r_context = ctx\<lparr>seatingPreference := Some pref, step := ''collect_special_requests''\<rparr>,
           bookingComplete = None, booking = None\<rparr>)"

definition specialRequestsTurn :: "ChatEnv \<Rightarrow> string \<Rightarrow> BookingContext \<Rightarrow> ChatResponse" where
  "specialRequestsTurn env message ctx =
     (let lowerMessage = toLowerCase message;
          hasNoRequests = (str_includes lowerMessage ''no'' \<or> str_includes lowerMessage ''none''
                           \<or> str_includes lowerMessage ''nothing'');
          updatedContext = ctx\<lparr>specialRequests := (if hasNoRequests then None else Some message),
                               step := ''confirm_booking''\<rparr>;
          summary = buildBookingSummary env updatedContext
      in \<lparr>response = ''Perfect! Let me confirm your booking details:'' @ [CHR 0x0A, CHR 0x0A] @ summary
              @ [CHR 0x0A, CHR 0x0A] @ ''Is everything correct? Say '' @ [CHR 0x22] @ ''yes'' @ [CHR 0x22]
              @ '' or '' @ [CHR 0x22] @ ''confirm'' @ [CHR 0x22]
              @ '' to complete your booking, or let me know what you'd like to change.'',
           r_context = updatedContext, bookingComplete = None, booking = None\<rparr>)"

definition messageConfirms :: "string \<Rightarrow> bool" where
  "messageConfirms message =
     (let lowerMessage = toLowerCase message
      in str_includes lowerMessage ''yes'' \<or> str_includes lowerMessage ''confirm''
         \<or> str_includes lowerMessage ''correct'' \<or> str_includes lowerMessage ''looks good''
         \<or> str_includes lowerMessage ''that's right'')"

definition bookingDataOf :: "ChatEnv \<Rightarrow> BookingContext \<Rightarrow> InsertBooking" where
  "bookingDataOf env ctx =
     \<lparr>b_customerName = or_str (customerName ctx) ''Guest'',
      b_numberOfGuests = or_num (numberOfGuests ctx) 2,
      b_bookingDate = or_str (bookingDate ctx) (hd (str_split CHR ''T'' (nowISO env))),
      b_bookingTime = or_str (bookingTime ctx) ''7:00 PM'',
      b_cuisinePreference = or_str (cuisinePreference ctx) ''Any'',
      b_location = or_str (location ctx) ''Unknown'',
      b_specialRequests = specialRequests ctx,
      b_weatherInfo = weatherInfo ctx,
      b_seatingPreference = (case seatingPreference ctx of None \<Rightarrow> no_preference | Some p \<Rightarrow> p)\<rparr>"

definition confirmTurn :: "ChatEnv \<Rightarrow> store \<Rightarrow> BookingContext \<Rightarrow> ChatResponse \<times> store" where
  "confirmTurn env bookings ctx =
     (let (created, bookings') = createBooking (randomUUID env) (createdAtISO env) (bookingDataOf env ctx) bookings
      in (\<lparr>response = ''Wonderful! Your booking has been confirmed! Your booking ID is ''
              @ bookingId created @ ''. We look forward to seeing you, '' @ b_customerName created
              @ '', on '' @ formatDate env (b_bookingDate created) @ '' at '' @ b_bookingTime created
              @ ''. Thank you for choosing our restaurant!'',
            r_context = ctx\<lparr>step := ''booking_complete''\<rparr>,
            bookingComplete = Some True,
            booking = Some created\<rparr>, bookings'))"

text \<open>The general path: the language-model adapter, then the eager weather lookup.\<close>

definition nluTurn :: "ChatEnv \<Rightarrow> string \<Rightarrow> BookingContext \<Rightarrow> ChatResponse" where
  "nluTurn env message ctx =
     (let geminiContext = (if step ctx = ''greeting'' then ctx\<lparr>step := ''collect_name''\<rparr> else ctx);
          result = processConversation env message geminiContext;
          rc = r_context result
      in if truthy_str (location rc) \<and> truthy_str (bookingDate rc) \<and> weatherInfo rc = None
            \<and> step rc \<noteq> ''fetch_weather''
         then (case getWeatherForDate (weatherEnv env) (the (bookingDate rc)) (the (location rc)) of
                 None \<Rightarrow> result\<lparr>r_context := rc\<lparr>step := ''fetch_weather''\<rparr>\<rparr>
               | Some weather \<Rightarrow>
                   (let seatingResponse = generateSeatingResponse (condition weather) (temperature weather)
                    in result\<lparr>r_context := rc\<lparr>weatherInfo := Some weather,
                                                 seatingPreference := Some (preference seatingResponse),
                                                 step := ''suggest_seating''\<rparr>,
                              response := response result @ [CHR 0x0A, CHR 0x0A] @ s_response seatingResponse\<rparr>))
         else result)"

text \<open>
  The handler after the request has passed the schema: the response sent and the store
  after the turn.
\<close>

definition chat :: "ChatEnv \<Rightarrow> store \<Rightarrow> string \<Rightarrow> BookingContext \<Rightarrow> ChatResponse \<times> store" where
  "chat env bookings message ctx =
     (case fetchWeatherTurn env ctx of
        Some r \<Rightarrow> (r, bookings)
      | None \<Rightarrow>
          if step ctx = ''suggest_seating'' then (suggestSeatingTurn message ctx, bookings)
          else if step ctx = ''collect_special_requests'' then (specialRequestsTurn env message ctx, bookings)
          else if step ctx = ''confirm_booking'' \<and> messageConfirms message then confirmTurn env bookings ctx
          else (nluTurn env message ctx, bookings))"

section \<open>Concrete inputs\<close>

text \<open>The extraction object \<open>{}\<close> and a reply that carries only it.\<close>

definition emptyExtraction :: ExtractedData where
  "emptyExtraction =
     \<lparr>x_customerName = None, x_numberOfGuests = JUndefined, x_bookingDate = None,
      x_bookingTime = None, x_cuisinePreference = None, x_location = None,
      x_specialRequests = None, x_seatingPreference = None, x_weatherInfo = None, x_step = None\<rparr>"

definition emptyParsed :: Parsed where
  "emptyParsed = \<lparr>p_response = None, extractedData = Some emptyExtraction, nextStep = None, isConfirmed = None\<rparr>"

text \<open>\<open>parsed.extractedData?.f\<close>: the extracted value of a field, absent without an extraction object.\<close>

definition extractedField :: "(ExtractedData \<Rightarrow> 'a option) \<Rightarrow> Parsed \<Rightarrow> 'a option" where
  "extractedField f parsed = (case extractedData parsed of None \<Rightarrow> None | Some d \<Rightarrow> f d)"

definition extractedGuests :: "Parsed \<Rightarrow> js_value" where
  "extractedGuests parsed = (case extractedData parsed of None \<Rightarrow> JUndefined | Some d \<Rightarrow> x_numberOfGuests d)"

definition parisContext :: BookingContext where
  "parisContext =
     \<lparr>customerName = Some ''Ana'', numberOfGuests = Some 4, bookingDate = None,
      bookingTime = None, cuisinePreference = None, location = Some ''Paris'',
      specialRequests = None, seatingPreference = None, weatherInfo = None,
      step = ''collect_guests''\<rparr>"

text \<open>Replies whose extraction proposes a guest count.\<close>

definition guestsParsed :: "js_value \<Rightarrow> Parsed" where
  "guestsParsed v = emptyParsed\<lparr>extractedData := Some (emptyExtraction\<lparr>x_numberOfGuests := v\<rparr>)\<rparr>"

text \<open>A stored booking and a store that holds it.\<close>

definition anaBooking :: Booking where
  "anaBooking =
     \<lparr>b_customerName = ''Ana'', b_numberOfGuests = 2, b_bookingDate = ''2030-01-01'',
      b_bookingTime = ''7:00 PM'', b_cuisinePreference = ''Italian'', b_location = ''Paris'',
      b_specialRequests = None, b_weatherInfo = None, b_seatingPreference = indoor,
      bookingId = ''BK-1A2B3C4D'', b_status = confirmed, createdAt = ''2029-12-24T10:00:00.000Z''\<rparr>"

definition anaStore :: store where
  "anaStore = Map.empty(''BK-1A2B3C4D'' \<mapsto> anaBooking)"

text \<open>Weather environments: no credential; a credential with the upstream answering as given.\<close>

definition offlineEnv :: WeatherEnv where
  "offlineEnv =
     \<lparr>OPENWEATHER_API_KEY = [], dateGetTime = (\<lambda>d. None), todayMidnight = 0,
      forecastApi = (\<lambda>l. FetchRejected), weatherApi = (\<lambda>l. FetchRejected)\<rparr>"

definition onlineEnv ::
  "int option \<Rightarrow> int \<Rightarrow> ForecastItem list fetched \<Rightarrow> OpenWeatherResponse fetched \<Rightarrow> WeatherEnv" where
  "onlineEnv target today forecastAnswer weatherAnswer =
     \<lparr>OPENWEATHER_API_KEY = ''key'', dateGetTime = (\<lambda>d. target), todayMidnight = today,
      forecastApi = (\<lambda>l. forecastAnswer), weatherApi = (\<lambda>l. weatherAnswer)\<rparr>"

definition clearSkyNow :: OpenWeatherResponse where
  "clearSkyNow =
     \<lparr>o_weather = [\<lparr>w_main = ''Clear'', w_description = ''clear sky'', w_icon = ''01d''\<rparr>],
      o_temp = 21, o_humidity = 40, o_windSpeed = 3\<rparr>"

text \<open>
  The cases in which the resolver falls back to the synthetic summary: no credential, a
  date whose instant lies before today's midnight, or a \<open>try\<close> block that throws.
\<close>

definition syntheticCase :: "WeatherEnv \<Rightarrow> string \<Rightarrow> string \<Rightarrow> bool" where
  "syntheticCase env date loc =
     (OPENWEATHER_API_KEY env = []
      \<or> (case dateGetTime env date of None \<Rightarrow> False | Some t \<Rightarrow> t < todayMidnight env)
      \<or> isl (weatherAttempt env date loc))"


definition isLowerLetter :: "char \<Rightarrow> bool" where
  "isLowerLetter c = ((97::nat) \<le> of_char c \<and> of_char c \<le> (122::nat))"



definition capitalizeWord :: "string \<Rightarrow> string" where
  "capitalizeWord word = toUpperCase (take 1 word) @ drop 1 word"

text \<open>A chat environment for a confirmation turn, and the context of scenario C.\<close>

definition confirmEnv :: ChatEnv where
  "confirmEnv =
     \<lparr>weatherEnv = offlineEnv, nowISO = ''2029-12-24T10:00:00.000Z'',
      randomUUID = ''1a2b3c4d-0000-4000-8000-000000000000'',
      createdAtISO = ''2029-12-24T10:00:00.001Z'',
      toLocaleDateString = (\<lambda>d. d), numberToString = (\<lambda>n. ''2''),
      modelReply = (\<lambda>m c. ReplyThrew)\<rparr>"

definition confirmContext :: BookingContext where
  "confirmContext =
     \<lparr>customerName = Some ''Ana'', numberOfGuests = Some 2, bookingDate = None,
      bookingTime = None, cuisinePreference = None, location = None,
      specialRequests = None, seatingPreference = None, weatherInfo = None,
      step = ''confirm_booking''\<rparr>"


text \<open>Both upstream endpoints fail: the fetch rejects or the status is not \<open>ok\<close>.\<close>

definition upstreamDown :: "WeatherEnv \<Rightarrow> string \<Rightarrow> bool" where
  "upstreamDown env loc =
     ((case forecastApi env loc of HttpOk items \<Rightarrow> False | _ \<Rightarrow> True) \<and>
      (case weatherApi env loc of HttpOk d \<Rightarrow> False | _ \<Rightarrow> True))"

section \<open>Context merge: facts about \<open>updateContext\<close>\<close>

lemma assignGuests_cases:
  "assignGuests v old =
     (case v of JNumber n \<Rightarrow> if n = 0 then old else Some (min 20 (max 1 n)) | _ \<Rightarrow> old)"
  by (cases v) (simp_all add: assignGuests_def)

lemma numberOfGuests_updateContext:
  "numberOfGuests (updateContext ctx parsed) = assignGuests (extractedGuests parsed) (numberOfGuests ctx)"
  by (simp add: updateContext_def mergeExtracted_def extractedGuests_def assignGuests_def Let_def
      split: option.splits)

lemma assignIf_no_value: "v = None \<or> v = Some [] \<Longrightarrow> assignIf v old = old"
  by (auto simp: assignIf_def)

lemma updateContext_fields:
  "customerName (updateContext ctx parsed) = assignIf (extractedField x_customerName parsed) (customerName ctx)"
  "bookingDate (updateContext ctx parsed) = assignIf (extractedField x_bookingDate parsed) (bookingDate ctx)"
  "bookingTime (updateContext ctx parsed) = assignIf (extractedField x_bookingTime parsed) (bookingTime ctx)"
  "cuisinePreference (updateContext ctx parsed) =
     assignIf (extractedField x_cuisinePreference parsed) (cuisinePreference ctx)"
  "location (updateContext ctx parsed) = assignIf (extractedField x_location parsed) (location ctx)"
  "specialRequests (updateContext ctx parsed) =
     assignIf (extractedField x_specialRequests parsed) (specialRequests ctx)"
  "seatingPreference (updateContext ctx parsed) = seatingPreference ctx"
  "weatherInfo (updateContext ctx parsed) = weatherInfo ctx"
  by (simp_all add: updateContext_def mergeExtracted_def extractedField_def assignIf_def Let_def
      split: option.splits)

lemma mergeExtracted_empty: "mergeExtracted emptyExtraction ctx = ctx"
  by (simp add: mergeExtracted_def emptyExtraction_def assignIf_def assignGuests_def)

lemma step_mergeExtracted: "step (mergeExtracted d ctx) = step ctx"
  by (simp add: mergeExtracted_def)

lemma isValidStep_iff:
  "isValidStep s \<longleftrightarrow>
     s \<in> {''greeting'', ''collect_name'', ''collect_guests'', ''collect_date'', ''collect_time'',
          ''collect_cuisine'', ''collect_location'', ''fetch_weather'', ''suggest_seating'',
          ''collect_special_requests'', ''confirm_booking'', ''booking_complete''}"
  by (simp add: isValidStep_def validSteps_def)

lemma fallback_guests:
  "numberOfGuests (r_context (createFallbackResponse msg ctx)) = numberOfGuests ctx \<or>
   (\<exists>ds. step ctx = ''collect_guests'' \<and> matchDigits msg = Some ds \<and>
      numberOfGuests (r_context (createFallbackResponse msg ctx)) =
        Some (real (min 20 (max 1 (parseDigits ds)))))"
  by (auto simp: createFallbackResponse_def Let_def split: option.splits if_splits)

lemma fallback_collect_guests:
  assumes "step ctx = ''collect_guests''"
    and "\<not> str_includes (toLowerCase msg) ''hello''" and "\<not> str_includes (toLowerCase msg) ''hi''"
    and "matchDigits msg = Some ds"
  shows "numberOfGuests (r_context (createFallbackResponse msg ctx)) =
           Some (real (min 20 (max 1 (parseDigits ds))))"
  using assms by (simp add: createFallbackResponse_def Let_def)

text \<open>On the digit run that \<open>/\d+/\<close> matches, \<open>parseInt\<close> reads the decimal value.\<close>

lemma digit_facts:
  assumes "isDigit c"
  shows "\<not> isWhiteSpace c" and "digitOfRadix 10 c = Some (digitValue c)"
    and "c \<noteq> CHR ''-''" and "c \<noteq> CHR ''+''" and "c \<noteq> CHR ''x''" and "c \<noteq> CHR ''X''"
  using assms
  by (auto simp: isDigit_def isWhiteSpace_def digitOfRadix_def digitValue_def Let_def)

lemma foldl_digits:
  assumes "\<forall>c \<in> set ds. isDigit c"
  shows "foldl (\<lambda>acc c. 10 * acc + (case digitOfRadix 10 c of None \<Rightarrow> 0 | Some d \<Rightarrow> d)) a ds
       = foldl (\<lambda>acc c. 10 * acc + digitValue c) a ds"
  using assms by (induction ds arbitrary: a) (simp_all add: digit_facts)

lemma parseInt_digit_run:
  assumes ne: "ds \<noteq> []" and dig: "\<forall>c \<in> set ds. isDigit c"
  shows "parseInt ds = Some (int (parseDigits ds))"
proof -
  from ne obtain c cs where ds: "ds = c # cs" by (cases ds) auto
  with dig have c: "isDigit c" by simp
  have s1: "dropWhile isWhiteSpace ds = ds"
    using c ds by (simp add: digit_facts)
  have sign: "take 1 ds \<noteq> ''-''" "take 1 ds \<noteq> ''+''"
    using c ds by (auto simp: digit_facts)
  have hex: "take 2 ds \<noteq> ''0x''" "take 2 ds \<noteq> ''0X''"
  proof -
    show "take 2 ds \<noteq> ''0x''"
    proof
      assume "take 2 ds = ''0x''"
      then have "CHR ''x'' \<in> set ds"
        by (metis in_set_takeD list.set_intros(1) list.set_intros(2))
      with dig show False using digit_facts(5) by blast
    qed
    show "take 2 ds \<noteq> ''0X''"
    proof
      assume "take 2 ds = ''0X''"
      then have "CHR ''X'' \<in> set ds"
        by (metis in_set_takeD list.set_intros(1) list.set_intros(2))
      with dig show False using digit_facts(6) by blast
    qed
  qed
  have tw': "takeWhile (\<lambda>c. \<exists>y. digitOfRadix 10 c = Some y) ds = ds"
    using dig by (simp add: takeWhile_eq_all_conv digit_facts)
  show ?thesis
    unfolding parseInt_def Let_def s1
    using sign hex ne by (simp add: tw' foldl_digits [OF dig] parseDigits_def)
qed

lemma matchDigits_run:
  assumes "matchDigits s = Some ds"
  shows "ds \<noteq> []" and "\<forall>c \<in> set ds. isDigit c"
  using assms by (auto simp: matchDigits_def Let_def split: if_splits dest: set_takeWhileD)

lemma parseInt_of_match:
  "matchDigits s = Some ds \<Longrightarrow> parseInt ds = Some (int (parseDigits ds))"
  using matchDigits_run [of s ds] by (simp add: parseInt_digit_run)

text \<open>
  Claim C4. Whenever a merge assigns a guest count, the assigned value lies in \<open>[1, 20]\<close>:
  in \<open>updateContext\<close> a non-zero extracted number \<open>n\<close> is stored as \<open>min 20 (max 1 n)\<close>, and a
  guest count that differs from the one before the merge is within the bounds; in the
  \<open>collect_guests\<close> branch of the fallback parser the first run of digits is stored clamped,
  and a guest count that differs from the one before is within the bounds.
\<close>

theorem guest_count_assigned_within_bounds:
  "(extractedGuests parsed = JNumber n \<and> n \<noteq> 0 \<longrightarrow>
      numberOfGuests (updateContext ctx parsed) = Some (min 20 (max 1 n)) \<and>
      1 \<le> min 20 (max 1 n) \<and> min 20 (max 1 n) \<le> 20) \<and>
   (numberOfGuests (updateContext ctx parsed) \<noteq> numberOfGuests ctx \<longrightarrow>
      (\<exists>g. numberOfGuests (updateContext ctx parsed) = Some g \<and> 1 \<le> g \<and> g \<le> 20)) \<and>
   (step ctx = ''collect_guests'' \<and> \<not> str_includes (toLowerCase msg) ''hello'' \<and>
    \<not> str_includes (toLowerCase msg) ''hi'' \<and> matchDigits msg = Some ds \<longrightarrow>
      (\<exists>g. numberOfGuests (r_context (createFallbackResponse msg ctx)) = Some (real g) \<and>
           g = min 20 (max 1 (parseDigits ds)) \<and> 1 \<le> g \<and> g \<le> 20)) \<and>
   (numberOfGuests (r_context (createFallbackResponse msg ctx)) \<noteq> numberOfGuests ctx \<longrightarrow>
      (\<exists>g. numberOfGuests (r_context (createFallbackResponse msg ctx)) = Some g \<and> 1 \<le> g \<and> g \<le> 20))"
proof (intro conjI impI)
  assume "extractedGuests parsed = JNumber n \<and> n \<noteq> 0"
  then show "numberOfGuests (updateContext ctx parsed) = Some (min 20 (max 1 n))"
    by (simp add: numberOfGuests_updateContext assignGuests_cases)
next
  show "1 \<le> min 20 (max 1 n)" by simp
next
  show "min 20 (max 1 n) \<le> 20" by simp
next
  assume "numberOfGuests (updateContext ctx parsed) \<noteq> numberOfGuests ctx"
  then show "\<exists>g. numberOfGuests (updateContext ctx parsed) = Some g \<and> 1 \<le> g \<and> g \<le> 20"
    by (cases "extractedGuests parsed")
       (auto simp: numberOfGuests_updateContext assignGuests_cases split: if_splits)
next
  assume "step ctx = ''collect_guests'' \<and> \<not> str_includes (toLowerCase msg) ''hello'' \<and>
    \<not> str_includes (toLowerCase msg) ''hi'' \<and> matchDigits msg = Some ds"
  then have "numberOfGuests (r_context (createFallbackResponse msg ctx)) =
      Some (real (min 20 (max 1 (parseDigits ds))))"
    by (simp add: fallback_collect_guests)
  then show "\<exists>g. numberOfGuests (r_context (createFallbackResponse msg ctx)) = Some (real g) \<and>
           g = min 20 (max 1 (parseDigits ds)) \<and> 1 \<le> g \<and> g \<le> 20"
    by simp
next
  assume "numberOfGuests (r_context (createFallbackResponse msg ctx)) \<noteq> numberOfGuests ctx"
  with fallback_guests [of msg ctx] obtain ds' where
    "numberOfGuests (r_context (createFallbackResponse msg ctx)) =
       Some (real (min 20 (max 1 (parseDigits ds'))))"
    by blast
  then show "\<exists>g. numberOfGuests (r_context (createFallbackResponse msg ctx)) = Some g \<and> 1 \<le> g \<and> g \<le> 20"
    by simp
qed

theorem guest_count_assigned_within_bounds_witness:
  "extractedGuests (guestsParsed (JNumber 250)) = JNumber 250 \<and> (250::real) \<noteq> 0 \<and>
   numberOfGuests parisContext = Some 4 \<and>
   numberOfGuests (updateContext parisContext (guestsParsed (JNumber 250))) = Some 20 \<and>
   step parisContext = ''collect_guests'' \<and>
   \<not> str_includes (toLowerCase ''We are 25 people'') ''hello'' \<and>
   \<not> str_includes (toLowerCase ''We are 25 people'') ''hi'' \<and>
   matchDigits ''We are 25 people'' = Some ''25'' \<and>
   numberOfGuests (r_context (createFallbackResponse ''We are 25 people'' parisContext)) = Some 20"
proof -
  have h1: "extractedGuests (guestsParsed (JNumber 250)) = JNumber 250"
    by (simp add: guestsParsed_def extractedGuests_def emptyParsed_def emptyExtraction_def)
  have h2: "step parisContext = ''collect_guests''"
    by (simp add: parisContext_def)
  have h3: "\<not> str_includes (toLowerCase ''We are 25 people'') ''hello''"
    by code_simp
  have h4: "\<not> str_includes (toLowerCase ''We are 25 people'') ''hi''"
    by code_simp
  have h5: "matchDigits ''We are 25 people'' = Some ''25''"
    by code_simp
  have h6: "parseDigits ''25'' = 25"
    by code_simp
  show ?thesis
    using guest_count_assigned_within_bounds
      [of "guestsParsed (JNumber 250)" 250 parisContext "''We are 25 people''" "''25''"]
      h1 h2 h3 h4 h5 h6
    by (simp add: parisContext_def)
qed

text \<open>
  Claim C5. The merge leaves a field of the context as it is whenever the extraction
  holds no value for it: for each string field an absent, \<open>null\<close>, \<open>undefined\<close> or empty
  extracted value, for the guest count an absent, \<open>null\<close>, zero or empty one. The seating
  preference and the weather are never touched by the merge. In particular a context with
  location Paris keeps it when the extraction has no location.
\<close>

theorem merge_keeps_field_without_extracted_value:
  "(extractedField x_customerName parsed \<in> {None, Some []} \<longrightarrow>
      customerName (updateContext ctx parsed) = customerName ctx) \<and>
   (extractedGuests parsed \<in> {JUndefined, JNull, JNumber 0, JString []} \<longrightarrow>
      numberOfGuests (updateContext ctx parsed) = numberOfGuests ctx) \<and>
   (extractedField x_bookingDate parsed \<in> {None, Some []} \<longrightarrow>
      bookingDate (updateContext ctx parsed) = bookingDate ctx) \<and>
   (extractedField x_bookingTime parsed \<in> {None, Some []} \<longrightarrow>
      bookingTime (updateContext ctx parsed) = bookingTime ctx) \<and>
   (extractedField x_cuisinePreference parsed \<in> {None, Some []} \<longrightarrow>
      cuisinePreference (updateContext ctx parsed) = cuisinePreference ctx) \<and>
   (extractedField x_location parsed \<in> {None, Some []} \<longrightarrow>
      location (updateContext ctx parsed) = location ctx) \<and>
   (extractedField x_specialRequests parsed \<in> {None, Some []} \<longrightarrow>
      specialRequests (updateContext ctx parsed) = specialRequests ctx) \<and>
   seatingPreference (updateContext ctx parsed) = seatingPreference ctx \<and>
   weatherInfo (updateContext ctx parsed) = weatherInfo ctx"
  by (auto simp: updateContext_fields numberOfGuests_updateContext assignGuests_cases
      intro: assignIf_no_value)

theorem merge_keeps_field_without_extracted_value_witness:
  "extractedField x_location emptyParsed \<in> {None, Some []} \<and>
   location parisContext = Some ''Paris'' \<and>
   location (updateContext parisContext emptyParsed) = Some ''Paris'' \<and>
   extractedField x_customerName emptyParsed \<in> {None, Some []} \<and>
   customerName (updateContext parisContext emptyParsed) = Some ''Ana'' \<and>
   extractedGuests emptyParsed \<in> {JUndefined, JNull, JNumber 0, JString []} \<and>
   numberOfGuests (updateContext parisContext emptyParsed) = Some 4"
  using merge_keeps_field_without_extracted_value [of emptyParsed parisContext]
  by (simp add: extractedField_def extractedGuests_def emptyParsed_def emptyExtraction_def
      parisContext_def)

text \<open>
  Claim C6. Merging a context with an empty extraction (no extraction object, or the
  object \<open>{}\<close>, and no proposed next step) returns the context itself, equal in every
  field.
\<close>

theorem merge_empty_extraction_unchanged:
  "extractedData parsed = None \<or> extractedData parsed = Some emptyExtraction \<Longrightarrow>
   nextStep parsed = None \<Longrightarrow> updateContext ctx parsed = ctx"
  by (auto simp: updateContext_def mergeExtracted_empty)

theorem merge_empty_extraction_unchanged_witness:
  "(extractedData emptyParsed = None \<or> extractedData emptyParsed = Some emptyExtraction) \<and>
   nextStep emptyParsed = None \<and>
   updateContext parisContext emptyParsed = parisContext \<and>
   updateContext (updateContext parisContext emptyParsed) emptyParsed =
     updateContext parisContext emptyParsed"
  using merge_empty_extraction_unchanged [of emptyParsed parisContext]
    merge_empty_extraction_unchanged [of emptyParsed "updateContext parisContext emptyParsed"]
  by (simp add: emptyParsed_def)

text \<open>
  Claim C7. A proposed next step becomes the step of the merged context if and only if
  it is one of the twelve step values; any other proposal, and no proposal, leaves the
  step as it was. \<open>updateContext\<close> is a total function: it returns a context in every case.
\<close>

theorem next_step_accepted_iff_valid:
  "(nextStep parsed = Some s \<and>
      s \<in> {''greeting'', ''collect_name'', ''collect_guests'', ''collect_date'', ''collect_time'',
           ''collect_cuisine'', ''collect_location'', ''fetch_weather'', ''suggest_seating'',
           ''collect_special_requests'', ''confirm_booking'', ''booking_complete''} \<longrightarrow>
      step (updateContext ctx parsed) = s) \<and>
   (nextStep parsed = Some s \<and>
      s \<notin> {''greeting'', ''collect_name'', ''collect_guests'', ''collect_date'', ''collect_time'',
           ''collect_cuisine'', ''collect_location'', ''fetch_weather'', ''suggest_seating'',
           ''collect_special_requests'', ''confirm_booking'', ''booking_complete''} \<longrightarrow>
      step (updateContext ctx parsed) = step ctx) \<and>
   (nextStep parsed = None \<longrightarrow> step (updateContext ctx parsed) = step ctx)"
proof -
  have valid_nonempty: "isValidStep s \<Longrightarrow> s \<noteq> []"
    by (auto simp: isValidStep_iff)
  show ?thesis
    unfolding isValidStep_iff [symmetric]
    using valid_nonempty
    by (auto simp: updateContext_def Let_def step_mergeExtracted split: option.splits)
qed

theorem next_step_accepted_iff_valid_witness:
  "nextStep (emptyParsed\<lparr>nextStep := Some ''collect_date''\<rparr>) = Some ''collect_date'' \<and>
   step (updateContext parisContext (emptyParsed\<lparr>nextStep := Some ''collect_date''\<rparr>)) = ''collect_date'' \<and>
   nextStep (emptyParsed\<lparr>nextStep := Some ''checkout''\<rparr>) = Some ''checkout'' \<and>
   step (updateContext parisContext (emptyParsed\<lparr>nextStep := Some ''checkout''\<rparr>)) = ''collect_guests'' \<and>
   nextStep emptyParsed = None \<and>
   step (updateContext parisContext emptyParsed) = ''collect_guests''"
  using next_step_accepted_iff_valid
      [of "emptyParsed\<lparr>nextStep := Some ''collect_date''\<rparr>" "''collect_date''" parisContext]
    next_step_accepted_iff_valid
      [of "emptyParsed\<lparr>nextStep := Some ''checkout''\<rparr>" "''checkout''" parisContext]
    next_step_accepted_iff_valid [of emptyParsed "''checkout''" parisContext]
  by (simp add: emptyParsed_def parisContext_def)

text \<open>
  Claim C10, as stated, fails in its second half: an extracted guest count of \<open>-5\<close> is not
  strictly positive, yet the merge clamps it to 1 and assigns it over the 4 guests of the
  context.
\<close>

theorem negative_guest_count_assigned:
  "extractedGuests (guestsParsed (JNumber (- 5))) = JNumber (- 5) \<and>
   \<not> (0 < (- 5 :: real)) \<and>
   numberOfGuests parisContext = Some 4 \<and>
   numberOfGuests (updateContext parisContext (guestsParsed (JNumber (- 5)))) = Some 1"
  by (simp add: guestsParsed_def extractedGuests_def updateContext_def emptyParsed_def
      emptyExtraction_def mergeExtracted_def assignGuests_def assignIf_def parisContext_def)

text \<open>
  Claim C10, amended. An extracted guest count of 0 leaves the guest count of the context
  unchanged (the truthiness guard discards it, it is not clamped up to 1); every other
  extracted number, a negative one included, is clamped into \<open>[1, 20]\<close> and assigned, so a
  negative number is assigned as 1; an extracted value that is not a number leaves the
  guest count unchanged.
\<close>

theorem zero_guests_discarded_nonzero_clamped:
  "(extractedGuests parsed = JNumber 0 \<longrightarrow>
      numberOfGuests (updateContext ctx parsed) = numberOfGuests ctx) \<and>
   (extractedGuests parsed = JNumber n \<and> n \<noteq> 0 \<longrightarrow>
      numberOfGuests (updateContext ctx parsed) = Some (min 20 (max 1 n))) \<and>
   (extractedGuests parsed = JNumber n \<and> n < 0 \<longrightarrow>
      numberOfGuests (updateContext ctx parsed) = Some 1) \<and>
   ((\<forall>m. extractedGuests parsed \<noteq> JNumber m) \<longrightarrow>
      numberOfGuests (updateContext ctx parsed) = numberOfGuests ctx)"
  by (cases "extractedGuests parsed") (auto simp: numberOfGuests_updateContext assignGuests_cases)

theorem zero_guests_discarded_nonzero_clamped_witness:
  "extractedGuests (guestsParsed (JNumber 0)) = JNumber 0 \<and>
   numberOfGuests (updateContext parisContext (guestsParsed (JNumber 0))) = Some 4 \<and>
   extractedGuests (guestsParsed (JNumber 7)) = JNumber 7 \<and>
   numberOfGuests (updateContext parisContext (guestsParsed (JNumber 7))) = Some 7 \<and>
   extractedGuests (guestsParsed (JNumber (- 3))) = JNumber (- 3) \<and>
   numberOfGuests (updateContext parisContext (guestsParsed (JNumber (- 3)))) = Some 1 \<and>
   (\<forall>m. extractedGuests (guestsParsed (JString ''seven'')) \<noteq> JNumber m) \<and>
   numberOfGuests (updateContext parisContext (guestsParsed (JString ''seven''))) = Some 4"
proof -
  have g: "extractedGuests (guestsParsed v) = v" for v
    by (simp add: guestsParsed_def extractedGuests_def emptyParsed_def emptyExtraction_def)
  have p: "numberOfGuests parisContext = Some 4"
    by (simp add: parisContext_def)
  show ?thesis
    using zero_guests_discarded_nonzero_clamped
        [where parsed = "guestsParsed (JNumber 0)" and n = 0 and ctx = parisContext]
      zero_guests_discarded_nonzero_clamped
        [where parsed = "guestsParsed (JNumber 7)" and n = 7 and ctx = parisContext]
      zero_guests_discarded_nonzero_clamped
        [where parsed = "guestsParsed (JNumber (- 3))" and n = "- 3" and ctx = parisContext]
      zero_guests_discarded_nonzero_clamped
        [where parsed = "guestsParsed (JString ''seven'')" and n = 0 and ctx = parisContext]
    by (simp add: g p)
qed

section \<open>Booking store: cancelling\<close>

text \<open>
  Claim C9. For an identifier present in the store, cancelling returns true, the record
  stays retrievable under the identifier with status \<open>cancelled\<close> and every other field as
  before (restoring the old status gives back the old record), and no other identifier
  is affected; for an absent identifier it returns false and the store is unchanged.
\<close>

theorem cancel_marks_booking_and_keeps_it:
  "(bookings ident = Some b \<longrightarrow>
      fst (deleteBooking ident bookings) = True \<and>
      getBooking (snd (deleteBooking ident bookings)) ident = Some (b\<lparr>b_status := cancelled\<rparr>) \<and>
      b_status (b\<lparr>b_status := cancelled\<rparr>) = cancelled \<and>
      (b\<lparr>b_status := cancelled\<rparr>)\<lparr>b_status := b_status b\<rparr> = b \<and>
      (\<forall>other. other \<noteq> ident \<longrightarrow>
         getBooking (snd (deleteBooking ident bookings)) other = getBooking bookings other)) \<and>
   (bookings ident = None \<longrightarrow> deleteBooking ident bookings = (False, bookings))"
  by (simp add: deleteBooking_def getBooking_def)

theorem cancel_marks_booking_and_keeps_it_witness:
  "anaStore ''BK-1A2B3C4D'' = Some anaBooking \<and>
   fst (deleteBooking ''BK-1A2B3C4D'' anaStore) = True \<and>
   getBooking (snd (deleteBooking ''BK-1A2B3C4D'' anaStore)) ''BK-1A2B3C4D''
     = Some (anaBooking\<lparr>b_status := cancelled\<rparr>) \<and>
   anaStore ''BK-00000000'' = None \<and>
   deleteBooking ''BK-00000000'' anaStore = (False, anaStore)"
  using cancel_marks_booking_and_keeps_it [of anaStore "''BK-1A2B3C4D''" anaBooking]
    cancel_marks_booking_and_keeps_it [of anaStore "''BK-00000000''" anaBooking]
  by (simp add: anaStore_def)

section \<open>Seating rule\<close>

lemma Math_round_nearest: "\<bar>real_of_int (Math_round t) - t\<bar> \<le> 1 / 2"
  unfolding Math_round_def by linarith

lemma preference_refines: "preference (generateSeatingResponse c t) = seatingRuleSpec c t"
  by (simp add: generateSeatingResponse_def seatingRuleSpec_def conditionMatches_def Let_def)

lemma rationale_quotes_rounded:
  assumes nr: "\<not> conditionMatches [''rain'', ''storm'', ''snow''] c"
  shows "\<exists>pre post. s_response (generateSeatingResponse c t)
            = pre @ intToString (Math_round t) @ degreesC @ post"
proof -
  from nr have nr':
    "\<not> (str_includes (toLowerCase c) ''rain'' \<or> str_includes (toLowerCase c) ''storm''
        \<or> str_includes (toLowerCase c) ''snow'')"
    by (simp add: conditionMatches_def)
  consider (warm) "t > 30" | (chilly) "\<not> t > 30" "t < 10"
    | (fair) "\<not> t > 30" "\<not> t < 10"
        "str_includes (toLowerCase c) ''clear'' \<or> str_includes (toLowerCase c) ''sunny''"
    | (other) "\<not> t > 30" "\<not> t < 10"
        "\<not> (str_includes (toLowerCase c) ''clear'' \<or> str_includes (toLowerCase c) ''sunny'')"
    by blast
  then show ?thesis
  proof cases
    case warm
    with nr' have "s_response (generateSeatingResponse c t) =
        ''It's going to be quite warm at '' @ intToString (Math_round t) @ degreesC
          @ '' on your booking date. Our air-conditioned indoor seating would be more comfortable. Would you prefer that?''"
      by (simp add: generateSeatingResponse_def Let_def)
    then show ?thesis by blast
  next
    case chilly
    with nr' have "s_response (generateSeatingResponse c t) =
        ''It's going to be a bit chilly at '' @ intToString (Math_round t) @ degreesC
          @ '' on your booking date. Our warm indoor seating would be perfect. Sound good?''"
      by (simp add: generateSeatingResponse_def Let_def)
    then show ?thesis by blast
  next
    case fair
    with nr' have "s_response (generateSeatingResponse c t) =
        ''Great news! The weather looks beautiful on your booking date - ''
          @ intToString (Math_round t) @ degreesC
          @ ('' and '' @ toLowerCase c @ ''! Would you like outdoor seating to enjoy the lovely weather?'')"
      by (simp add: generateSeatingResponse_def Let_def)
    then show ?thesis by blast
  next
    case other
    with nr' have "s_response (generateSeatingResponse c t) =
        ''The weather on your booking date looks fine - around ''
          @ intToString (Math_round t) @ degreesC @ ''. Would you prefer indoor or outdoor seating?''"
      by (simp add: generateSeatingResponse_def Let_def)
    then show ?thesis by blast
  qed
qed

text \<open>
  Claim C2. The seating rule is a total function into \<open>{indoor, outdoor, no_preference}\<close>
  that agrees with the precedence list of the specification: a condition containing rain,
  storm or snow gives indoor; otherwise a temperature above 30 gives indoor; otherwise a
  temperature below 10 gives indoor; otherwise a condition containing clear or sunny gives
  outdoor; otherwise no preference. Outside the first case the rationale quotes the
  temperature as \<open>Math.round\<close> of it, an integer at distance at most one half.
\<close>

theorem seating_rule_precedence:
  "seatingRuleSpec c t = preference (generateSeatingResponse c t) \<and>
   (conditionMatches [''rain'', ''storm'', ''snow''] c \<longrightarrow>
      preference (generateSeatingResponse c t) = indoor) \<and>
   (\<not> conditionMatches [''rain'', ''storm'', ''snow''] c \<and> t > 30 \<longrightarrow>
      preference (generateSeatingResponse c t) = indoor) \<and>
   (\<not> conditionMatches [''rain'', ''storm'', ''snow''] c \<and> t < 10 \<longrightarrow>
      preference (generateSeatingResponse c t) = indoor) \<and>
   (\<not> conditionMatches [''rain'', ''storm'', ''snow''] c \<and> 10 \<le> t \<and> t \<le> 30 \<and>
    conditionMatches [''clear'', ''sunny''] c \<longrightarrow>
      preference (generateSeatingResponse c t) = outdoor) \<and>
   (\<not> conditionMatches [''rain'', ''storm'', ''snow''] c \<and> 10 \<le> t \<and> t \<le> 30 \<and>
    \<not> conditionMatches [''clear'', ''sunny''] c \<longrightarrow>
      preference (generateSeatingResponse c t) = no_preference) \<and>
   (\<not> conditionMatches [''rain'', ''storm'', ''snow''] c \<longrightarrow>
      (\<exists>pre post. s_response (generateSeatingResponse c t)
          = pre @ intToString (Math_round t) @ degreesC @ post)) \<and>
   \<bar>real_of_int (Math_round t) - t\<bar> \<le> 1 / 2"
proof -
  have spec: "preference (generateSeatingResponse c t) = seatingRuleSpec c t"
    by (rule preference_refines)
  show ?thesis
    unfolding spec
    using rationale_quotes_rounded [of c t] Math_round_nearest [of t]
    by (simp add: seatingRuleSpec_def)
qed

theorem seating_rule_precedence_witness:
  "conditionMatches [''rain'', ''storm'', ''snow''] ''Rain'' \<and>
   preference (generateSeatingResponse ''Rain'' 35) = indoor \<and>
   \<not> conditionMatches [''rain'', ''storm'', ''snow''] ''Clear'' \<and>
   conditionMatches [''clear'', ''sunny''] ''Clear'' \<and>
   preference (generateSeatingResponse ''Clear'' 35) = indoor \<and>
   preference (generateSeatingResponse ''Clear'' 4) = indoor \<and>
   preference (generateSeatingResponse ''Clear'' (127 / 5)) = outdoor \<and>
   \<not> conditionMatches [''rain'', ''storm'', ''snow''] ''Clouds'' \<and>
   \<not> conditionMatches [''clear'', ''sunny''] ''Clouds'' \<and>
   preference (generateSeatingResponse ''Clouds'' (45 / 2)) = no_preference \<and>
   Math_round (45 / 2) = 23"
proof -
  have r: "conditionMatches [''rain'', ''storm'', ''snow''] ''Rain''" by code_simp
  have c1: "\<not> conditionMatches [''rain'', ''storm'', ''snow''] ''Clear''" by code_simp
  have c2: "conditionMatches [''clear'', ''sunny''] ''Clear''" by code_simp
  have d1: "\<not> conditionMatches [''rain'', ''storm'', ''snow''] ''Clouds''" by code_simp
  have d2: "\<not> conditionMatches [''clear'', ''sunny''] ''Clouds''" by code_simp
  have m: "Math_round (45 / 2) = 23" by (simp add: Math_round_def)
  have a1: "preference (generateSeatingResponse ''Rain'' 35) = indoor"
    using seating_rule_precedence [of "''Rain''" 35] r by blast
  have a2: "preference (generateSeatingResponse ''Clear'' 35) = indoor"
    using seating_rule_precedence [of "''Clear''" 35] c1 by simp
  have a3: "preference (generateSeatingResponse ''Clear'' 4) = indoor"
    using seating_rule_precedence [of "''Clear''" 4] c1 by simp
  have a4: "preference (generateSeatingResponse ''Clear'' (127 / 5)) = outdoor"
    using seating_rule_precedence [of "''Clear''" "127 / 5"] c1 c2 by simp
  have a5: "preference (generateSeatingResponse ''Clouds'' (45 / 2)) = no_preference"
    using seating_rule_precedence [of "''Clouds''" "45 / 2"] d1 d2 by simp
  show ?thesis
    using r c1 c2 d1 d2 m a1 a2 a3 a4 a5 by simp
qed

section \<open>Weather resolver: the synthetic summary\<close>

lemma past_date_is_synthetic:
  assumes "dateGetTime env date = Some t" and "t < todayMidnight env"
  shows "weatherAttempt env date loc = Inr (Some (getMockWeather date))"
proof -
  from assms(2) have "(t - todayMidnight env) div (1000 * 60 * 60 * 24) < 0"
    by (simp add: div_neg_pos_less0 algebra_simps)
  with assms(1) show ?thesis
    by (simp add: weatherAttempt_def Let_def)
qed

lemma synthetic_case_result:
  assumes "syntheticCase env date loc"
  shows "getWeatherForDate env date loc = Some (getMockWeather date)"
proof (cases "OPENWEATHER_API_KEY env = []")
  case True
  then show ?thesis by (simp add: getWeatherForDate_def)
next
  case False
  with assms consider
    (past) t where "dateGetTime env date = Some t" "t < todayMidnight env"
    | (throws) e where "weatherAttempt env date loc = Inl e"
    by (auto simp: syntheticCase_def isl_def split: option.splits)
  then show ?thesis
  proof cases
    case past
    then show ?thesis
      by (simp add: getWeatherForDate_def past_date_is_synthetic)
  next
    case throws
    then show ?thesis
      by (simp add: getWeatherForDate_def)
  qed
qed

lemma upstream_down_synthetic:
  assumes "upstreamDown env loc"
  shows "syntheticCase env date loc"
proof -
  from assms have f: "isl (getForecastWeather env loc date)"
    and e: "isl (getCurrentWeatherAsEstimate env loc)"
    by (auto simp: upstreamDown_def getForecastWeather_def getCurrentWeatherAsEstimate_def
        split: fetched.splits)
  show ?thesis
  proof (cases "dateGetTime env date")
    case None
    with e show ?thesis by (simp add: syntheticCase_def weatherAttempt_def)
  next
    case (Some t)
    show ?thesis
    proof (cases "t < todayMidnight env")
      case True
      with Some show ?thesis by (simp add: syntheticCase_def)
    next
      case False
      then have "\<not> (t - todayMidnight env) div (1000 * 60 * 60 * 24) < 0"
        by (simp add: pos_imp_zdiv_neg_iff)
      with Some f e show ?thesis
        by (simp add: syntheticCase_def weatherAttempt_def Let_def)
    qed
  qed
qed

text \<open>
  Claim C3. Whenever no credential is configured, or the requested date lies before
  today's midnight, or the \<open>try\<close> block throws (in particular when the upstream endpoints
  reject or answer with an error status), the resolver returns the synthetic summary of
  the date. Two such calls for the same date string return equal summaries, whatever
  the environments and the locations.
\<close>

theorem synthetic_weather_function_of_date:
  assumes "syntheticCase env1 date loc1 \<or> upstreamDown env1 loc1"
    and "syntheticCase env2 date loc2 \<or> upstreamDown env2 loc2"
  shows "getWeatherForDate env1 date loc1 = Some (getMockWeather date) \<and>
         getWeatherForDate env2 date loc2 = getWeatherForDate env1 date loc1"
proof -
  from assms have "syntheticCase env1 date loc1" and "syntheticCase env2 date loc2"
    using upstream_down_synthetic by blast+
  then show ?thesis
    by (simp add: synthetic_case_result)
qed

theorem synthetic_weather_function_of_date_witness:
  "syntheticCase offlineEnv ''2030-01-01'' ''London'' \<and>
   syntheticCase (onlineEnv (Some 0) 86400000 FetchRejected FetchRejected) ''2030-01-01'' ''Paris'' \<and>
   syntheticCase (onlineEnv (Some 86400000) 0 (HttpError 401) (HttpOk clearSkyNow))
     ''2030-01-01'' ''Oslo'' \<and>
   upstreamDown (onlineEnv None 0 FetchRejected (HttpError 500)) ''Rome'' \<and>
   getWeatherForDate offlineEnv ''2030-01-01'' ''London''
     = Some \<lparr>condition = ''Clouds'', temperature = 21, description = ''Partly cloudy'',
             icon = ''01d'', humidity = Some 51, windSpeed = Some 3\<rparr> \<and>
   getWeatherForDate (onlineEnv (Some 0) 86400000 FetchRejected FetchRejected) ''2030-01-01'' ''Paris''
     = getWeatherForDate offlineEnv ''2030-01-01'' ''London'' \<and>
   getWeatherForDate (onlineEnv (Some 86400000) 0 (HttpError 401) (HttpOk clearSkyNow))
       ''2030-01-01'' ''Oslo''
     = getWeatherForDate offlineEnv ''2030-01-01'' ''London'' \<and>
   getWeatherForDate (onlineEnv None 0 FetchRejected (HttpError 500)) ''2030-01-01'' ''Rome''
     = getWeatherForDate offlineEnv ''2030-01-01'' ''London''"
proof -
  have s1: "syntheticCase offlineEnv ''2030-01-01'' ''London''"
    by (simp add: syntheticCase_def offlineEnv_def)
  have s2: "syntheticCase (onlineEnv (Some 0) 86400000 FetchRejected FetchRejected)
      ''2030-01-01'' ''Paris''"
    by (simp add: syntheticCase_def onlineEnv_def)
  have s3: "syntheticCase (onlineEnv (Some 86400000) 0 (HttpError 401) (HttpOk clearSkyNow))
      ''2030-01-01'' ''Oslo''"
    by (simp add: syntheticCase_def onlineEnv_def weatherAttempt_def getForecastWeather_def)
  have s4: "upstreamDown (onlineEnv None 0 FetchRejected (HttpError 500)) ''Rome''"
    by (simp add: upstreamDown_def onlineEnv_def)
  have h: "dateHashOf ''2030-01-01'' = 481"
    by (simp add: dateHashOf_def)
  have m: "getMockWeather ''2030-01-01''
     = \<lparr>condition = ''Clouds'', temperature = 21, description = ''Partly cloudy'',
             icon = ''01d'', humidity = Some 51, windSpeed = Some 3\<rparr>"
    by (simp add: getMockWeather_def h conditions_def)
  show ?thesis
    using synthetic_weather_function_of_date [OF disjI1 [OF s1] disjI1 [OF s2]]
      synthetic_weather_function_of_date [OF disjI1 [OF s1] disjI1 [OF s3]]
      synthetic_weather_function_of_date [OF disjI1 [OF s1] disjI2 [OF s4]]
      s1 s2 s3 s4 m
    by simp
qed

section \<open>Weather resolver: descriptions\<close>

lemma str_split_nonempty: "str_split sep s \<noteq> []"
  by (induction s) (auto split: list.splits)

lemma str_split_no_sep: "w \<in> set (str_split sep s) \<Longrightarrow> sep \<notin> set w"
proof (induction s arbitrary: w)
  case Nil
  then show ?case by simp
next
  case (Cons c cs)
  show ?case
  proof (cases "c = sep")
    case True
    with Cons show ?thesis by auto
  next
    case False
    obtain v vs where vs: "str_split sep cs = v # vs"
      using str_split_nonempty [of sep cs] by (cases "str_split sep cs") auto
    with False Cons.prems have "w = c # v \<or> w \<in> set vs" by simp
    then show ?thesis
      using Cons.IH [of v] Cons.IH [of w] vs False by auto
  qed
qed

lemma str_split_word: "sep \<notin> set w \<Longrightarrow> str_split sep w = [w]"
  by (induction w) auto

lemma str_split_append:
  "sep \<notin> set w \<Longrightarrow> str_split sep (w @ sep # rest) = w # str_split sep rest"
  by (induction w) auto

lemma str_split_join:
  "ws \<noteq> [] \<Longrightarrow> \<forall>w \<in> set ws. sep \<notin> set w \<Longrightarrow> str_split sep (str_join [sep] ws) = ws"
proof (induction ws)
  case Nil
  then show ?case by simp
next
  case (Cons w ws)
  show ?case
  proof (cases ws)
    case Nil
    with Cons.prems show ?thesis by (simp add: str_split_word)
  next
    case (Cons v vs)
    with Cons.prems Cons.IH have "str_split sep (str_join [sep] ws) = ws" by simp
    with Cons Cons.prems show ?thesis by (simp add: str_split_append)
  qed
qed

lemma toUpperChar_eq:
  "toUpperChar c = (if isLowerLetter c then char_of ((of_char c :: nat) - 32) else c)"
  by (simp add: toUpperChar_def isLowerLetter_def)

lemma of_char_toUpperChar:
  "(of_char (toUpperChar c) :: nat) = (if isLowerLetter c then of_char c - 32 else of_char c)"
proof (cases "isLowerLetter c")
  case True
  then have "(of_char c :: nat) - 32 < 256"
    unfolding isLowerLetter_def by linarith
  with True show ?thesis
    by (simp add: toUpperChar_eq)
next
  case False
  then show ?thesis by (simp add: toUpperChar_eq)
qed



lemma toUpperChar_space: "toUpperChar c = CHR '' '' \<longleftrightarrow> c = CHR '' ''"
proof
  assume a: "toUpperChar c = CHR '' ''"
  then have "(of_char (toUpperChar c) :: nat) = 32" by simp
  then have "\<not> isLowerLetter c"
    unfolding of_char_toUpperChar by (auto simp: isLowerLetter_def split: if_splits)
  with a show "c = CHR '' ''" by (simp add: toUpperChar_eq)
next
  assume "c = CHR '' ''"
  then show "toUpperChar c = CHR '' ''" by (simp add: toUpperChar_def)
qed

lemma capitalizeWord_simps:
  "capitalizeWord [] = []"
  "capitalizeWord (c # cs) = toUpperChar c # cs"
  by (simp_all add: capitalizeWord_def toUpperCase_def)

lemma capitalizeWord_no_space:
  assumes "CHR '' '' \<notin> set w"
  shows "CHR '' '' \<notin> set (capitalizeWord w)"
proof (cases w)
  case Nil
  then show ?thesis by (simp add: capitalizeWord_simps)
next
  case (Cons c cs)
  with assms have "c \<noteq> CHR '' ''" and "CHR '' '' \<notin> set cs" by auto
  moreover from \<open>c \<noteq> CHR '' ''\<close> have "toUpperChar c \<noteq> CHR '' ''"
    by (simp add: toUpperChar_space)
  ultimately show ?thesis
    using Cons by (auto simp: capitalizeWord_simps)
qed

lemma capitalizeWords_alt:
  "capitalizeWords str = str_join '' '' (map capitalizeWord (str_split CHR '' '' str))"
  unfolding capitalizeWords_def capitalizeWord_def by (rule refl)

lemma words_of_capitalizeWords:
  "str_split CHR '' '' (capitalizeWords d) = map capitalizeWord (str_split CHR '' '' d)"
proof -
  have "\<forall>w \<in> set (map capitalizeWord (str_split CHR '' '' d)). CHR '' '' \<notin> set w"
    using str_split_no_sep [of _ "CHR '' ''" d] capitalizeWord_no_space by auto
  moreover have "map capitalizeWord (str_split CHR '' '' d) \<noteq> []"
    by (simp add: str_split_nonempty)
  ultimately show ?thesis
    unfolding capitalizeWords_alt
    using str_split_join [of "map capitalizeWord (str_split CHR '' '' d)" "CHR '' ''"]
    by simp
qed

lemma no_space_capitalizeWords_words:
  "w \<in> set (map capitalizeWord (str_split CHR '' '' d)) \<Longrightarrow> CHR '' '' \<notin> set w"
  using words_of_capitalizeWords [of d] str_split_no_sep [of w "CHR '' ''" "capitalizeWords d"]
  by simp













text \<open>The synthetic summary carries one of the four descriptions of the table, as written there.\<close>

lemma synthetic_descriptions:
  "description (getMockWeather date)
     \<in> {''Clear sky'', ''Partly cloudy'', ''Light rain'', ''Sunny and warm''}"
proof -
  have "dateHashOf date mod 4 < 4" by simp
  then have "dateHashOf date mod 4 \<in> {0, 1, 2, 3}" by auto
  then show ?thesis
    by (auto simp: getMockWeather_def conditions_def Let_def)
qed



section \<open>Dialogue controller: confirmation\<close>

lemma toUpperChar_hex:
  assumes "isLowerHex c"
  shows "isUpperAlnum (toUpperChar c)"
proof (cases "isLowerLetter c")
  case True
  with assms have "(97::nat) \<le> of_char c \<and> of_char c \<le> (102::nat)"
    by (auto simp: isLowerHex_def isDigit_def isLowerLetter_def)
  then show ?thesis
    unfolding isUpperAlnum_def of_char_toUpperChar using True by auto
next
  case False
  with assms have "isDigit c"
    by (auto simp: isLowerHex_def isLowerLetter_def)
  with False show ?thesis
    by (simp add: isUpperAlnum_def toUpperChar_eq)
qed

lemma uuid_booking_id:
  assumes "isUUID u"
  shows "matchesBookingId (''BK-'' @ toUpperCase (take 8 u))"
proof -
  from assms have len: "length u = 36" and hex: "list_all isLowerHex (take 8 u)"
    by (simp_all add: isUUID_def)
  from hex have "list_all isUpperAlnum (toUpperCase (take 8 u))"
    by (simp add: toUpperCase_def list_all_iff toUpperChar_hex)
  with len show ?thesis
    by (simp add: matchesBookingId_def toUpperCase_def)
qed

lemma or_str_default: "a = None \<or> a = Some [] \<Longrightarrow> or_str a d = d"
  by (auto simp: or_str_def)

lemma or_str_value: "a = Some s \<Longrightarrow> s \<noteq> [] \<Longrightarrow> or_str a d = s"
  by (simp add: or_str_def)

lemma chat_confirm:
  assumes "step ctx = ''confirm_booking''" and "messageConfirms message"
  shows "chat env bookings message ctx = confirmTurn env bookings ctx"
  using assms by (simp add: chat_def fetchWeatherTurn_def)

text \<open>
  Claim C1. For a context at step \<open>confirm_booking\<close> and a message whose lower-cased text
  contains yes, confirm, correct, looks good or that's right, the chat operation creates a
  booking in the store with status \<open>confirmed\<close> and an identifier \<open>BK-\<close> followed by the
  first eight characters of the UUID in upper case, which matches \<open>BK-[A-Z0-9]{8}\<close>; each
  missing field of the context gets its default (name Guest, 2 guests, today's date, 7:00
  PM, cuisine Any, location Unknown, seating no preference) and each populated field is
  carried over; the returned context is the input at step \<open>booking_complete\<close>, and the
  response carries \<open>bookingComplete = true\<close> and the booking.
\<close>

theorem confirmation_creates_booking:
  assumes "step ctx = ''confirm_booking''"
    and "str_includes (toLowerCase message) ''yes'' \<or> str_includes (toLowerCase message) ''confirm''
         \<or> str_includes (toLowerCase message) ''correct''
         \<or> str_includes (toLowerCase message) ''looks good''
         \<or> str_includes (toLowerCase message) ''that's right''"
    and "isUUID (randomUUID env)"
  shows "\<exists>b. booking (fst (chat env bookings message ctx)) = Some b \<and>
           snd (chat env bookings message ctx) = bookings(bookingId b \<mapsto> b) \<and>
           b_status b = confirmed \<and>
           bookingId b = ''BK-'' @ toUpperCase (take 8 (randomUUID env)) \<and>
           matchesBookingId (bookingId b) \<and>
           bookingComplete (fst (chat env bookings message ctx)) = Some True \<and>
           r_context (fst (chat env bookings message ctx)) = ctx\<lparr>step := ''booking_complete''\<rparr> \<and>
           step (r_context (fst (chat env bookings message ctx))) = ''booking_complete'' \<and>
           (customerName ctx = None \<longrightarrow> b_customerName b = ''Guest'') \<and>
           (numberOfGuests ctx = None \<longrightarrow> b_numberOfGuests b = 2) \<and>
           (bookingDate ctx = None \<longrightarrow> b_bookingDate b = hd (str_split CHR ''T'' (nowISO env))) \<and>
           (bookingTime ctx = None \<longrightarrow> b_bookingTime b = ''7:00 PM'') \<and>
           (cuisinePreference ctx = None \<longrightarrow> b_cuisinePreference b = ''Any'') \<and>
           (location ctx = None \<longrightarrow> b_location b = ''Unknown'') \<and>
           (seatingPreference ctx = None \<longrightarrow> b_seatingPreference b = no_preference) \<and>
           (\<forall>v. customerName ctx = Some v \<and> v \<noteq> [] \<longrightarrow> b_customerName b = v) \<and>
           (\<forall>n. numberOfGuests ctx = Some n \<and> n \<noteq> 0 \<longrightarrow> b_numberOfGuests b = n) \<and>
           (\<forall>v. bookingDate ctx = Some v \<and> v \<noteq> [] \<longrightarrow> b_bookingDate b = v) \<and>
           (\<forall>v. bookingTime ctx = Some v \<and> v \<noteq> [] \<longrightarrow> b_bookingTime b = v) \<and>
           (\<forall>v. cuisinePreference ctx = Some v \<and> v \<noteq> [] \<longrightarrow> b_cuisinePreference b = v) \<and>
           (\<forall>v. location ctx = Some v \<and> v \<noteq> [] \<longrightarrow> b_location b = v) \<and>
           (\<forall>p. seatingPreference ctx = Some p \<longrightarrow> b_seatingPreference b = p) \<and>
           b_specialRequests b = specialRequests ctx \<and> b_weatherInfo b = weatherInfo ctx"
proof -
  from assms(2) have m: "messageConfirms message"
    by (simp add: messageConfirms_def)
  let ?b = "fst (createBooking (randomUUID env) (createdAtISO env) (bookingDataOf env ctx) bookings)"
  have c: "chat env bookings message ctx = confirmTurn env bookings ctx"
    using assms(1) m by (rule chat_confirm)
  have b1: "booking (fst (confirmTurn env bookings ctx)) = Some ?b"
    by (simp add: confirmTurn_def createBooking_def Let_def)
  have b2: "snd (confirmTurn env bookings ctx) = bookings(bookingId ?b \<mapsto> ?b)"
    by (simp add: confirmTurn_def createBooking_def Let_def InsertBooking.extend_def Booking.fields_def)
  have b3: "bookingId ?b = ''BK-'' @ toUpperCase (take 8 (randomUUID env))"
    by (simp add: createBooking_def Let_def InsertBooking.extend_def Booking.fields_def)
  have b4: "b_status ?b = confirmed"
    by (simp add: createBooking_def Let_def InsertBooking.extend_def Booking.fields_def)
  have b5: "bookingComplete (fst (confirmTurn env bookings ctx)) = Some True"
    and b6: "r_context (fst (confirmTurn env bookings ctx)) = ctx\<lparr>step := ''booking_complete''\<rparr>"
    by (simp_all add: confirmTurn_def createBooking_def Let_def)
  have f: "b_customerName ?b = or_str (customerName ctx) ''Guest''"
    "b_numberOfGuests ?b = or_num (numberOfGuests ctx) 2"
    "b_bookingDate ?b = or_str (bookingDate ctx) (hd (str_split CHR ''T'' (nowISO env)))"
    "b_bookingTime ?b = or_str (bookingTime ctx) ''7:00 PM''"
    "b_cuisinePreference ?b = or_str (cuisinePreference ctx) ''Any''"
    "b_location ?b = or_str (location ctx) ''Unknown''"
    "b_seatingPreference ?b = (case seatingPreference ctx of None \<Rightarrow> no_preference | Some p \<Rightarrow> p)"
    "b_specialRequests ?b = specialRequests ctx"
    "b_weatherInfo ?b = weatherInfo ctx"
    by (simp_all add: createBooking_def bookingDataOf_def Let_def InsertBooking.extend_def)
  have b7: "matchesBookingId (bookingId ?b)"
    unfolding b3 using assms(3) by (rule uuid_booking_id)
  have g: "booking (fst (chat env bookings message ctx)) = Some ?b \<and>
           snd (chat env bookings message ctx) = bookings(bookingId ?b \<mapsto> ?b) \<and>
           b_status ?b = confirmed \<and>
           bookingId ?b = ''BK-'' @ toUpperCase (take 8 (randomUUID env)) \<and>
           matchesBookingId (bookingId ?b) \<and>
           bookingComplete (fst (chat env bookings message ctx)) = Some True \<and>
           r_context (fst (chat env bookings message ctx)) = ctx\<lparr>step := ''booking_complete''\<rparr> \<and>
           step (r_context (fst (chat env bookings message ctx))) = ''booking_complete''"
    unfolding c using b1 b2 b3 b4 b5 b6 b7 by simp
  have h: "(customerName ctx = None \<longrightarrow> b_customerName ?b = ''Guest'') \<and>
           (numberOfGuests ctx = None \<longrightarrow> b_numberOfGuests ?b = 2) \<and>
           (bookingDate ctx = None \<longrightarrow> b_bookingDate ?b = hd (str_split CHR ''T'' (nowISO env))) \<and>
           (bookingTime ctx = None \<longrightarrow> b_bookingTime ?b = ''7:00 PM'') \<and>
           (cuisinePreference ctx = None \<longrightarrow> b_cuisinePreference ?b = ''Any'') \<and>
           (location ctx = None \<longrightarrow> b_location ?b = ''Unknown'') \<and>
           (seatingPreference ctx = None \<longrightarrow> b_seatingPreference ?b = no_preference) \<and>
           (\<forall>v. customerName ctx = Some v \<and> v \<noteq> [] \<longrightarrow> b_customerName ?b = v) \<and>
           (\<forall>n. numberOfGuests ctx = Some n \<and> n \<noteq> 0 \<longrightarrow> b_numberOfGuests ?b = n) \<and>
           (\<forall>v. bookingDate ctx = Some v \<and> v \<noteq> [] \<longrightarrow> b_bookingDate ?b = v) \<and>
           (\<forall>v. bookingTime ctx = Some v \<and> v \<noteq> [] \<longrightarrow> b_bookingTime ?b = v) \<and>
           (\<forall>v. cuisinePreference ctx = Some v \<and> v \<noteq> [] \<longrightarrow> b_cuisinePreference ?b = v) \<and>
           (\<forall>v. location ctx = Some v \<and> v \<noteq> [] \<longrightarrow> b_location ?b = v) \<and>
           (\<forall>p. seatingPreference ctx = Some p \<longrightarrow> b_seatingPreference ?b = p) \<and>
           b_specialRequests ?b = specialRequests ctx \<and> b_weatherInfo ?b = weatherInfo ctx"
    unfolding f by (simp add: or_str_def or_num_def)
  from g h show ?thesis
    by (intro exI [of _ ?b]) (rule conjI, blast, blast)
qed

theorem confirmation_creates_booking_witness:
  "step confirmContext = ''confirm_booking'' \<and>
   str_includes (toLowerCase ''yes, confirm'') ''yes'' \<and>
   isUUID (randomUUID confirmEnv) \<and>
   (\<exists>b. booking (fst (chat confirmEnv Map.empty ''yes, confirm'' confirmContext)) = Some b \<and>
        snd (chat confirmEnv Map.empty ''yes, confirm'' confirmContext) (bookingId b) = Some b \<and>
        b_status b = confirmed \<and> bookingId b = ''BK-1A2B3C4D'' \<and> matchesBookingId (bookingId b) \<and>
        b_customerName b = ''Ana'' \<and> b_numberOfGuests b = 2 \<and> b_bookingDate b = ''2029-12-24'' \<and>
        b_bookingTime b = ''7:00 PM'' \<and> b_cuisinePreference b = ''Any'' \<and>
        b_location b = ''Unknown'' \<and> b_seatingPreference b = no_preference) \<and>
   bookingComplete (fst (chat confirmEnv Map.empty ''yes, confirm'' confirmContext)) = Some True \<and>
   step (r_context (fst (chat confirmEnv Map.empty ''yes, confirm'' confirmContext))) = ''booking_complete''"
proof -
  have h1: "step confirmContext = ''confirm_booking''"
    by (simp add: confirmContext_def)
  have h2: "str_includes (toLowerCase ''yes, confirm'') ''yes''"
    by code_simp
  have h3: "isUUID (randomUUID confirmEnv)"
    by code_simp
  have u: "toUpperCase (take 8 (randomUUID confirmEnv)) = ''1A2B3C4D''"
    by code_simp
  have d: "hd (str_split CHR ''T'' (nowISO confirmEnv)) = ''2029-12-24''"
    by code_simp
  have c: "customerName confirmContext = Some ''Ana''" "numberOfGuests confirmContext = Some 2"
    "bookingDate confirmContext = None" "bookingTime confirmContext = None"
    "cuisinePreference confirmContext = None" "location confirmContext = None"
    "seatingPreference confirmContext = None"
    by (simp_all add: confirmContext_def)
  show ?thesis
    using confirmation_creates_booking [of confirmContext "''yes, confirm''" confirmEnv Map.empty,
        OF h1 disjI1 [OF h2] h3]
    apply (elim exE conjE)
    apply (simp add: c u d h1 h2 h3)
    done
qed

end
